theory Spec2Isabelle
  imports Complex_Main "HOL-Library.Word"
begin

unbundle bit_operations_syntax

section \<open>JavaScript values\<close>

text \<open>
  The driver is TypeScript, but the checks in \<^verbatim>\<open>find.ts\<close> (\<^verbatim>\<open>typeof\<close>,
  \<^verbatim>\<open>Array.isArray\<close>, \<^verbatim>\<open>Buffer.isBuffer\<close>, truthiness) are run-time checks on
  arbitrary JavaScript values, so filters and option values are modelled as values of
  a small universe of JavaScript values. A plain object is its list of own properties in
  insertion order. Numbers are restricted to integers; no branch of the modelled code
  looks at a number beyond its type and its truthiness.
\<close>

datatype jsval =
    JUndefined
  | JNull
  | JBool bool
  | JNum int
  | JStr string
  | JArr "jsval list"
  | JObj "(string \<times> jsval) list"
  | JBuffer "8 word list"

type_synonym document = "(string \<times> jsval) list"

text \<open>The \<^verbatim>\<open>typeof\<close> operator.\<close>

fun typeof :: "jsval \<Rightarrow> string" where
  "typeof JUndefined = ''undefined''"
| "typeof JNull = ''object''"
| "typeof (JBool b) = ''boolean''"
| "typeof (JNum n) = ''number''"
| "typeof (JStr s) = ''string''"
| "typeof (JArr xs) = ''object''"
| "typeof (JObj ps) = ''object''"
| "typeof (JBuffer bs) = ''object''"

fun isArray :: "jsval \<Rightarrow> bool" where
  "isArray (JArr xs) = True"
| "isArray v = False"

fun isBuffer :: "jsval \<Rightarrow> bool" where
  "isBuffer (JBuffer bs) = True"
| "isBuffer v = False"

text \<open>Truthiness (\<^verbatim>\<open>ToBoolean\<close>): what \<^verbatim>\<open>if (v)\<close>, \<^verbatim>\<open>!!v\<close> and \<^verbatim>\<open>||\<close> test.\<close>

fun truthy :: "jsval \<Rightarrow> bool" where
  "truthy JUndefined = False"
| "truthy JNull = False"
| "truthy (JBool b) = b"
| "truthy (JNum n) = (n \<noteq> 0)"
| "truthy (JStr s) = (s \<noteq> [])"
| "truthy (JArr xs) = True"
| "truthy (JObj ps) = True"
| "truthy (JBuffer bs) = True"

text \<open>\<^verbatim>\<open>a || b\<close> and \<^verbatim>\<open>a ?? b\<close>.\<close>

definition js_or :: "jsval \<Rightarrow> jsval \<Rightarrow> jsval" where
  "js_or a b = (if truthy a then a else b)"

definition nullish :: "jsval \<Rightarrow> bool" where
  "nullish v = (v = JUndefined \<or> v = JNull)"

definition coalesce :: "jsval \<Rightarrow> jsval \<Rightarrow> jsval" where
  "coalesce a b = (if nullish a then b else a)"

text \<open>
  Reading a property of an options object or a document: a missing property reads as
  \<^verbatim>\<open>undefined\<close>.
\<close>

definition getprop :: "document \<Rightarrow> string \<Rightarrow> jsval" where
  "getprop d k = (case map_of d k of None \<Rightarrow> JUndefined | Some v \<Rightarrow> v)"

text \<open>
  \<^verbatim>\<open>v.k\<close> on a value that is known not to be \<^verbatim>\<open>null\<close> or \<^verbatim>\<open>undefined\<close>. Only
  plain objects carry named properties in this model.
\<close>

fun js_member :: "jsval \<Rightarrow> string \<Rightarrow> jsval" where
  "js_member (JObj ps) k = getprop ps k"
| "js_member v k = JUndefined"

text \<open>
  The assignment \<^verbatim>\<open>d[k] = v\<close>: an existing property keeps its place, a new one is
  appended.
\<close>

fun assign :: "string \<Rightarrow> jsval \<Rightarrow> document \<Rightarrow> document" where
  "assign k v [] = [(k, v)]"
| "assign k v ((k', v') # ps) = (if k' = k then (k, v) # ps else (k', v') # assign k v ps)"

text \<open>\<^verbatim>\<open>Object.assign({}, a, b)\<close> and the spread \<^verbatim>\<open>{...a, ...b}\<close>.\<close>

definition spread :: "document \<Rightarrow> document \<Rightarrow> document" where
  "spread a b = foldl (\<lambda>d (k, v). assign k v d) a b"

text \<open>The field of a built document, \<open>None\<close> when the document has no such key.\<close>

definition field_of :: "document \<Rightarrow> string \<Rightarrow> jsval option" where
  "field_of d k = map_of d k"

text \<open>Template literals print a number in decimal.\<close>

fun show_nat :: "nat \<Rightarrow> string" where
  "show_nat n =
     (if n < 10 then [''0123456789'' ! n]
      else show_nat (n div 10) @ [''0123456789'' ! (n mod 10)])"

definition show_int :: "int \<Rightarrow> string" where
  "show_int i = (if i < 0 then ''-'' @ show_nat (nat (- i)) else show_nat (nat i))"

section \<open>The find operation (\<^verbatim>\<open>src/operations/find.ts\<close>)\<close>

datatype js_error = MongoError string | TypeError string

text \<open>
  The collaborators of \<^verbatim>\<open>find.ts\<close> that live in other modules are parameters of the
  model: the helpers imported from \<^verbatim>\<open>../utils\<close>, and the conversion of a value to a
  property key that \<^verbatim>\<open>result[field] = 1\<close> performs on a field that is not a string. They
  are taken to return a value.
\<close>

record utils =
  formattedOrderClause :: "jsval \<Rightarrow> jsval"
  normalizeHintField :: "jsval \<Rightarrow> jsval"
  toPropertyKey :: "jsval \<Rightarrow> string"

text \<open>
  A server, as far as \<^verbatim>\<open>execute\<close> looks at it: \<^verbatim>\<open>server.name\<close> and the number
  \<^verbatim>\<open>maxWireVersion(server)\<close> returns.
\<close>

record Server =
  server_name :: string
  maxWireVersion :: int

record ClientSession =
  inTransaction :: bool

text \<open>\<^verbatim>\<open>collection.s\<close>, the collection's settings.\<close>

record Collection =
  s :: document

text \<open>
  The fields \<^verbatim>\<open>FindOperation\<close> inherits, as \<^verbatim>\<open>super(collection, options)\<close> leaves
  them, and the fields of the class itself. \<open>ns\<close> is the string \<^verbatim>\<open>this.ns.toString()\<close>.
  The field \<^verbatim>\<open>filter\<close> is written \<open>filter'\<close>.
\<close>

record CommandOperation =
  options :: document
  readConcern :: jsval
  session :: "ClientSession option"
  fullResponse :: jsval

record FindOperation = CommandOperation +
  ns :: string
  readPreference :: jsval
  filter' :: jsval
  cmd :: document
  bsonOptions :: document
  server :: "Server option"

text \<open>
  \<^verbatim>\<open>filter[i]\<close> on a Buffer as an operand of \<^verbatim>\<open>|\<close> and \<^verbatim>\<open><<\<close>: the byte, or
  \<^verbatim>\<open>undefined\<close> past the end, which the bitwise operators read as 0. The operators work
  on 32-bit signed integers.
\<close>

definition byte_at :: "8 word list \<Rightarrow> nat \<Rightarrow> 32 word" where
  "byte_at bs i = (if i < length bs then ucast (bs ! i) else 0)"

definition objectSize :: "8 word list \<Rightarrow> int" where
  "objectSize bs =
     sint (byte_at bs 0 OR push_bit 8 (byte_at bs 1) OR push_bit 16 (byte_at bs 2)
           OR push_bit 24 (byte_at bs 3))"

fun buffer_bytes :: "jsval \<Rightarrow> 8 word list" where
  "buffer_bytes (JBuffer bs) = bs"
| "buffer_bytes v = []"

text \<open>
  The constructor. Its arguments: the inherited fields after \<^verbatim>\<open>super\<close>, the collection,
  the value \<^verbatim>\<open>ReadPreference.resolve(collection, this.options)\<close> returned, the namespace,
  the \<^verbatim>\<open>filter\<close> argument (any value; \<^verbatim>\<open>undefined\<close> takes the default \<^verbatim>\<open>{}\<close>) and the
  \<^verbatim>\<open>options\<close> argument (\<open>None\<close> when it is omitted, which takes the default \<^verbatim>\<open>{}\<close>).
  A \<^verbatim>\<open>throw\<close> is the result \<open>Inl\<close>.
\<close>

definition FindOperation_new ::
  "CommandOperation \<Rightarrow> Collection \<Rightarrow> jsval \<Rightarrow> string \<Rightarrow> jsval \<Rightarrow> document option
     \<Rightarrow> js_error + FindOperation" where
  "FindOperation_new base collection rp namespace filter_arg options_arg =
     (let filter = (if filter_arg = JUndefined then JObj [] else filter_arg);
          opts = (case options_arg of None \<Rightarrow> [] | Some d \<Rightarrow> d)
      in
      if typeof filter \<noteq> ''object'' \<or> isArray filter then
        Inl (MongoError ''Query filter must be a plain object or ObjectId'')
      else if isBuffer filter \<and> objectSize (buffer_bytes filter) \<noteq> int (length (buffer_bytes filter)) then
        Inl (TypeError
          (''query filter raw message size does not match message header size [''
            @ show_nat (length (buffer_bytes filter)) @ ''] != [''
            @ show_int (objectSize (buffer_bytes filter)) @ '']''))
      else
        let this_filter =
              (if \<not> nullish filter \<and> js_member filter ''_bsontype'' = JStr ''ObjectID''
               then JObj [(''_id'', filter)] else filter)
        in Inr (CommandOperation.extend base
             \<lparr> ns = namespace,
               readPreference = rp,
               filter' = this_filter,
               cmd = [(''find'', JStr namespace), (''query'', this_filter)],
               bsonOptions =
                 [(''raw'', coalesce (coalesce (getprop opts ''raw'') (getprop (s collection) ''raw'')) (JBool False)),
                  (''promoteLongs'', coalesce (coalesce (getprop opts ''promoteLongs'') (getprop (s collection) ''promoteLongs'')) (JBool True)),
                  (''promoteValues'', coalesce (coalesce (getprop opts ''promoteValues'') (getprop (s collection) ''promoteValues'')) (JBool True)),
                  (''promoteBuffers'', coalesce (coalesce (getprop opts ''promoteBuffers'') (getprop (s collection) ''promoteBuffers'')) (JBool False)),
                  (''ignoreUndefined'', coalesce (coalesce (getprop opts ''ignoreUndefined'') (getprop (s collection) ''ignoreUndefined'')) (JBool False))],
               server = None \<rparr>))"

text \<open>
  What \<^verbatim>\<open>execute\<close> does with its callback: it either calls it with an error and
  returns, or hands it to \<^verbatim>\<open>server.query\<close> together with the namespace, the find
  command and the query options.
\<close>

datatype outcome =
    CallbackError js_error
  | ServerQuery string document document

text \<open>A guarded assignment \<^verbatim>\<open>if (c) { d[k] = v }\<close>.\<close>

definition set_if :: "bool \<Rightarrow> string \<Rightarrow> jsval \<Rightarrow> document \<Rightarrow> document" where
  "set_if c k v d = (if c then assign k v d else d)"

text \<open>
  Two options for one command field: \<^verbatim>\<open>if (typeof a === 'boolean') { d[k] = a } else if
  (typeof b === 'boolean') { d[k] = b }\<close>.
\<close>

definition set_first_boolean :: "string \<Rightarrow> jsval \<Rightarrow> jsval \<Rightarrow> document \<Rightarrow> document" where
  "set_first_boolean k a b d =
     (if typeof a = ''boolean'' then assign k a d
      else if typeof b = ''boolean'' then assign k b d
      else d)"

fun elements :: "jsval \<Rightarrow> jsval list" where
  "elements (JArr xs) = xs"
| "elements v = []"

text \<open>
  The projection that is sent: an array of field names becomes a document. The keys are
  kept in the order of assignment; the places JavaScript gives to integer-like keys, and
  the special key \<^verbatim>\<open>__proto__\<close>, are not modelled.
\<close>

definition projection_of :: "utils \<Rightarrow> document \<Rightarrow> jsval" where
  "projection_of u opts =
     (let projection = js_or (getprop opts ''projection'') (getprop opts ''fields'')
      in if truthy projection \<and> \<not> isBuffer projection \<and> isArray projection then
           (if length (elements projection) \<noteq> 0
            then JObj (foldl (\<lambda>result field. assign (toPropertyKey u field) (JNum 1) result)
                        [] (elements projection))
            else JObj [(''_id'', JNum 1)])
         else projection)"

definition SUPPORTS_WRITE_CONCERN_AND_COLLATION :: int where
  "SUPPORTS_WRITE_CONCERN_AND_COLLATION = 5"

text \<open>
  The body of \<^verbatim>\<open>execute\<close> builds \<^verbatim>\<open>findCommand\<close> by a run of guarded assignments,
  interrupted once by the collation check. \<open>findCommand_before_collation\<close> is the
  command after the statements that precede that check (\<^verbatim>\<open>Object.assign({}, this.cmd)\<close> up to
  the \<^verbatim>\<open>allowPartialResults\<close> pair), \<open>findCommand_final\<close> the command after the remaining
  ones, as it is passed to \<^verbatim>\<open>server.query\<close>.
\<close>

definition findCommand_before_collation :: "utils \<Rightarrow> FindOperation \<Rightarrow> document" where
  "findCommand_before_collation u this =
     (let opts = options this;
          findCommand = spread [] (cmd this);
          findCommand = set_if (truthy (getprop opts ''sort'')) ''sort''
                          (formattedOrderClause u (getprop opts ''sort'')) findCommand;
          findCommand = set_if (truthy (js_or (getprop opts ''projection'') (getprop opts ''fields'')))
                          ''fields'' (projection_of u opts) findCommand;
          findCommand = set_if (truthy (getprop opts ''hint'')) ''hint''
                          (normalizeHintField u (getprop opts ''hint'')) findCommand;
          findCommand = set_if (typeof (getprop opts ''skip'') = ''number'') ''skip''
                          (getprop opts ''skip'') findCommand;
          findCommand = set_if (typeof (getprop opts ''limit'') = ''number'') ''limit''
                          (getprop opts ''limit'') findCommand;
          findCommand = set_if (typeof (getprop opts ''batchSize'') = ''number'') ''batchSize''
                          (getprop opts ''batchSize'') findCommand;
          findCommand = set_if (typeof (getprop opts ''singleBatch'') = ''boolean'') ''singleBatch''
                          (getprop opts ''singleBatch'') findCommand;
          findCommand = set_if (truthy (getprop opts ''comment'')) ''comment''
                          (getprop opts ''comment'') findCommand;
          findCommand = set_if (typeof (getprop opts ''maxTimeMS'') = ''number'') ''maxTimeMS''
                          (getprop opts ''maxTimeMS'') findCommand;
          findCommand = set_if (truthy (readConcern this) \<and>
                            (case session this of None \<Rightarrow> True | Some ses \<Rightarrow> \<not> inTransaction ses))
                          ''readConcern'' (readConcern this) findCommand;
          findCommand = set_if (truthy (getprop opts ''max'')) ''max''
                          (getprop opts ''max'') findCommand;
          findCommand = set_if (truthy (getprop opts ''min'')) ''min''
                          (getprop opts ''min'') findCommand;
          findCommand = set_if (typeof (getprop opts ''returnKey'') = ''boolean'') ''returnKey''
                          (getprop opts ''returnKey'') findCommand;
          findCommand = set_if (typeof (getprop opts ''showRecordId'') = ''boolean'') ''showRecordId''
                          (getprop opts ''showRecordId'') findCommand;
          findCommand = set_if (typeof (getprop opts ''tailable'') = ''boolean'') ''tailable''
                          (getprop opts ''tailable'') findCommand;
          findCommand = set_if (typeof (getprop opts ''oplogReplay'') = ''boolean'') ''oplogReplay''
                          (getprop opts ''oplogReplay'') findCommand;
          findCommand = set_first_boolean ''noCursorTimeout''
                          (getprop opts ''timeout'') (getprop opts ''noCursorTimeout'') findCommand;
          findCommand = set_first_boolean ''awaitData''
                          (getprop opts ''awaitData'') (getprop opts ''awaitdata'') findCommand;
          findCommand = set_first_boolean ''allowPartialResults''
                          (getprop opts ''allowPartialResults'') (getprop opts ''partial'') findCommand
      in findCommand)"

definition findCommand_final :: "utils \<Rightarrow> FindOperation \<Rightarrow> document" where
  "findCommand_final u this =
     (let opts = options this;
          findCommand = findCommand_before_collation u this;
          findCommand = set_if (truthy (getprop opts ''collation'')) ''collation''
                          (getprop opts ''collation'') findCommand;
          findCommand = set_if (typeof (getprop opts ''allowDiskUse'') = ''boolean'') ''allowDiskUse''
                          (getprop opts ''allowDiskUse'') findCommand;
          findCommand = set_if (typeof (getprop opts ''snapshot'') = ''boolean'') ''snapshot''
                          (getprop opts ''snapshot'') findCommand;
          findCommand = set_if (typeof (getprop opts ''showDiskLoc'') = ''boolean'') ''showDiskLoc''
                          (getprop opts ''showDiskLoc'') findCommand
      in findCommand)"

text \<open>
  \<^verbatim>\<open>execute(server, callback)\<close>: the operation with \<^verbatim>\<open>this.server\<close> set, and what
  happened to the callback.
\<close>

definition execute :: "utils \<Rightarrow> FindOperation \<Rightarrow> Server \<Rightarrow> FindOperation \<times> outcome" where
  "execute u this0 srv =
     (let this = this0\<lparr>server := Some srv\<rparr>;
          serverWireVersion = maxWireVersion srv;
          opts = options this
      in
      if typeof (getprop opts ''allowDiskUse'') \<noteq> ''undefined'' \<and> serverWireVersion < 4 then
        (this, CallbackError
           (MongoError ''The `allowDiskUse` option is not supported on MongoDB < 3.2''))
      else if truthy (getprop opts ''collation'')
              \<and> serverWireVersion < SUPPORTS_WRITE_CONCERN_AND_COLLATION then
        (this, CallbackError
           (MongoError (''Server '' @ server_name srv @ '', which reports wire version ''
              @ show_int serverWireVersion @ '', does not support collation'')))
      else
        (this, ServerQuery (ns this) (findCommand_final u this)
           (spread (spread [(''fullResult'', JBool (truthy (fullResponse this)))] opts)
              (bsonOptions this))))"

section \<open>The authentication provider registry (\<^verbatim>\<open>src/cmap/auth/defaultAuthProviders.ts\<close>)\<close>

text \<open>The enum \<^verbatim>\<open>AuthMechanism\<close> and the string each member stands for.\<close>

datatype AuthMechanism =
    MONGODB_AWS
  | MONGODB_CR
  | MONGODB_DEFAULT
  | MONGODB_GSSAPI
  | MONGODB_PLAIN
  | MONGODB_SCRAM_SHA1
  | MONGODB_SCRAM_SHA256
  | MONGODB_X509

fun mechanism_value :: "AuthMechanism \<Rightarrow> string" where
  "mechanism_value MONGODB_AWS = ''MONGODB-AWS''"
| "mechanism_value MONGODB_CR = ''MONGODB-CR''"
| "mechanism_value MONGODB_DEFAULT = ''DEFAULT''"
| "mechanism_value MONGODB_GSSAPI = ''GSSAPI''"
| "mechanism_value MONGODB_PLAIN = ''PLAIN''"
| "mechanism_value MONGODB_SCRAM_SHA1 = ''SCRAM-SHA-1''"
| "mechanism_value MONGODB_SCRAM_SHA256 = ''SCRAM-SHA-256''"
| "mechanism_value MONGODB_X509 = ''MONGODB-X509''"


text \<open>
  The provider classes the module imports. Their bodies are in other modules; an
  instance is known here by its class only.
\<close>

datatype provider_class = MongoDBAWS | MongoCR | GSSAPI | Plain | ScramSHA1 | ScramSHA256 | X509

text \<open>
  Object identity matters for the registry (one shared map, one instance per mechanism),
  so objects live in a store: a reference is an index into the list of allocated
  objects, and \<^verbatim>\<open>new\<close> and an object literal append a fresh object.
\<close>

type_synonym ref = nat

datatype heap_object =
    Instance provider_class
  | ObjectLiteral "(string \<times> ref) list"

type_synonym heap = "heap_object list"

definition alloc :: "heap_object \<Rightarrow> heap \<Rightarrow> ref \<times> heap" where
  "alloc obj h = (length h, h @ [obj])"

text \<open>
  The state of the loaded module: the store and the binding of the exported constant
  \<^verbatim>\<open>AUTH_PROVIDERS\<close>.
\<close>

record auth_module =
  heap :: heap
  AUTH_PROVIDERS :: ref

text \<open>
  Loading the module evaluates the initialiser of \<^verbatim>\<open>AUTH_PROVIDERS\<close> once: the seven
  \<^verbatim>\<open>new\<close> expressions in source order, keyed by the enum members' strings, and the
  object literal that holds them. \<open>h0\<close> is the store before the module is loaded.
\<close>

definition load_module :: "heap \<Rightarrow> auth_module" where
  "load_module h0 =
     (let (aws, h) = alloc (Instance MongoDBAWS) h0;
          (cr, h) = alloc (Instance MongoCR) h;
          (gssapi, h) = alloc (Instance GSSAPI) h;
          (plain, h) = alloc (Instance Plain) h;
          (sha1, h) = alloc (Instance ScramSHA1) h;
          (sha256, h) = alloc (Instance ScramSHA256) h;
          (x509, h) = alloc (Instance X509) h;
          (providers, h) = alloc (ObjectLiteral
             [(mechanism_value MONGODB_AWS, aws),
              (mechanism_value MONGODB_CR, cr),
              (mechanism_value MONGODB_GSSAPI, gssapi),
              (mechanism_value MONGODB_PLAIN, plain),
              (mechanism_value MONGODB_SCRAM_SHA1, sha1),
              (mechanism_value MONGODB_SCRAM_SHA256, sha256),
              (mechanism_value MONGODB_X509, x509)]) h
      in \<lparr>heap = h, AUTH_PROVIDERS = providers\<rparr>)"

text \<open>\<^verbatim>\<open>defaultAuthProviders()\<close>: the reference it returns, and the module state after.\<close>

definition defaultAuthProviders :: "auth_module \<Rightarrow> ref \<times> auth_module" where
  "defaultAuthProviders m = (AUTH_PROVIDERS m, m)"


text \<open>Reading the store: the properties of an object literal, the class of an instance.\<close>

definition properties :: "heap \<Rightarrow> ref \<Rightarrow> (string \<times> ref) list" where
  "properties h r =
     (if r < length h then (case h ! r of ObjectLiteral ps \<Rightarrow> ps | Instance c \<Rightarrow> []) else [])"

definition instance_at :: "heap \<Rightarrow> ref \<Rightarrow> provider_class option" where
  "instance_at h r =
     (if r < length h then (case h ! r of Instance c \<Rightarrow> Some c | ObjectLiteral ps \<Rightarrow> None) else None)"

text \<open>
  The lookup \<^verbatim>\<open>defaultAuthProviders()[mechanism]\<close>: the reference stored under the key
  and the class of the instance it points to. Only the map's own properties are read;
  what a key such as \<^verbatim>\<open>constructor\<close> inherits from \<^verbatim>\<open>Object.prototype\<close> is not
  modelled.
\<close>

definition provider_lookup :: "auth_module \<Rightarrow> string \<Rightarrow> (ref \<times> provider_class) option" where
  "provider_lookup m key =
     (let (r, m') = defaultAuthProviders m in
      case map_of (properties (heap m') r) key of
        None \<Rightarrow> None
      | Some p \<Rightarrow> (case instance_at (heap m') p of None \<Rightarrow> None | Some c \<Rightarrow> Some (p, c)))"





text \<open>
  Modelled from the spec: the capability-exchange step of the handshake (section 4.4,
  step 1), whose code is not among the source files. For a client configured with the
  mechanism \<^verbatim>\<open>DEFAULT\<close> it selects \<^verbatim>\<open>SCRAM-SHA-256\<close> if the server offers it,
  else \<^verbatim>\<open>SCRAM-SHA-1\<close> if the server offers it, else it fails with an
  unsupported-mechanism error. \<open>offered\<close> is the list of mechanism names in the server's
  response. A mechanism other than \<^verbatim>\<open>DEFAULT\<close> is kept as configured.
\<close>

datatype handshake_error = UnsupportedMechanism

definition select_mechanism :: "AuthMechanism \<Rightarrow> string list \<Rightarrow> handshake_error + AuthMechanism" where
  "select_mechanism configured offered =
     (if configured = MONGODB_DEFAULT then
        (if mechanism_value MONGODB_SCRAM_SHA256 \<in> set offered then Inr MONGODB_SCRAM_SHA256
         else if mechanism_value MONGODB_SCRAM_SHA1 \<in> set offered then Inr MONGODB_SCRAM_SHA1
         else Inl UnsupportedMechanism)
      else Inr configured)"

text \<open>
  The step followed by the one lookup in the registry of the source: the provider
  instance that will run the handshake.
\<close>

definition resolve_provider ::
  "auth_module \<Rightarrow> AuthMechanism \<Rightarrow> string list \<Rightarrow> handshake_error + (ref \<times> provider_class) option" where
  "resolve_provider m configured offered =
     (case select_mechanism configured offered of
        Inl e \<Rightarrow> Inl e
      | Inr mech \<Rightarrow> Inr (provider_lookup m (mechanism_value mech)))"


section \<open>Server descriptions and server selection (modelled from the spec)\<close>

text \<open>
  The topology, selection and pooling code of the driver is not among the source files.
  The definitions of this and the next sections follow the words of the specification.
\<close>

text \<open>Modelled from the spec: the observed role of a server (section 3).\<close>

datatype ServerRole =
    Unknown
  | Standalone
  | RSPrimary
  | RSSecondary
  | RSArbiter
  | RSGhost
  | Mongos
  | LoadBalancer

text \<open>
  Modelled from the spec: a ServerDescription (section 3): address, observed role,
  round-trip latency estimate (milliseconds), wire version range, replica-set name,
  set version and election id, last error, and the topology version
  \<open>(processId, counter)\<close>.
\<close>

record ServerDescription =
  address :: string
  role :: ServerRole
  latency :: real
  wireVersionRange :: "int \<times> int"
  setName :: "string option"
  setVersion :: nat
  electionId :: nat
  lastError :: "string option"
  topologyVersion :: "nat \<times> nat"

text \<open>Modelled from the spec: the default latency window of 15ms (section 4.5).\<close>

definition DEFAULT_LATENCY_WINDOW :: real where
  "DEFAULT_LATENCY_WINDOW = 15"

text \<open>
  Modelled from the spec: latency narrowing of the server selector (section 4.5), whose
  code is not among the source files. Compute the minimum observed
  latency among the eligible servers, then keep all servers within the window above that
  minimum, the bound included (section 8: exactly the servers within
  \<open>[min, min + window]\<close>). An empty eligible set stays empty.
\<close>

definition latency_narrowing :: "real \<Rightarrow> ServerDescription list \<Rightarrow> ServerDescription list" where
  "latency_narrowing window eligible =
     (if eligible = [] then []
      else let lowest = Min (set (map latency eligible))
           in filter (\<lambda>sd. latency sd \<le> lowest + window) eligible)"

text \<open>A server description that is known by its address and latency only.\<close>

definition server_at :: "string \<Rightarrow> real \<Rightarrow> ServerDescription" where
  "server_at a ms =
     \<lparr>address = a, role = RSSecondary, latency = ms, wireVersionRange = (0, 9),
      setName = Some ''rs0'', setVersion = 1, electionId = 1, lastError = None,
      topologyVersion = (1, 1)\<rparr>"


section \<open>The connection pool (modelled from the spec)\<close>





















section \<open>The topology state machine (modelled from the spec)\<close>

text \<open>Modelled from the spec: the topology types (section 3).\<close>

datatype TopologyType =
    Single
  | ReplicaSetWithPrimary
  | ReplicaSetNoPrimary
  | Sharded
  | UnknownTopology
  | LoadBalanced

text \<open>
  Modelled from the spec: a TopologyDescription (section 3): topology type, the mapping
  from server address to its latest ServerDescription (a list of entries, one per
  address), logical session timeout, compatibility range.
\<close>

record TopologyDescription =
  topologyType :: TopologyType
  servers :: "(string \<times> ServerDescription) list"
  logicalSessionTimeout :: "nat option"
  compatibility :: "int \<times> int"

text \<open>Modelled from the spec: the topology before any server has been heard of.\<close>

definition empty_topology :: TopologyDescription where
  "empty_topology =
     \<lparr>topologyType = UnknownTopology, servers = [], logicalSessionTimeout = None,
      compatibility = (0, 0)\<rparr>"

text \<open>
  Modelled from the spec: the order of topology versions \<open>(processId, counter)\<close>, a
  monotonically increasing tuple (section 3): \<open>newer v w\<close> when \<open>v\<close> comes after \<open>w\<close>,
  the process id first.
\<close>

definition newer :: "nat \<times> nat \<Rightarrow> nat \<times> nat \<Rightarrow> bool" where
  "newer v w = (fst w < fst v \<or> (fst w = fst v \<and> snd w < snd v))"

text \<open>
  Modelled from the spec: primary freshness (sections 3 and 4.2): \<open>older_election a b\<close>
  when the pair \<open>(setVersion, electionId)\<close> of \<open>a\<close> is older than that of \<open>b\<close>, the
  set version first.
\<close>

definition older_election :: "ServerDescription \<Rightarrow> ServerDescription \<Rightarrow> bool" where
  "older_election a b =
     (setVersion a < setVersion b \<or> (setVersion a = setVersion b \<and> electionId a < electionId b))"

text \<open>Modelled from the spec: a server demoted to the role \<open>Unknown\<close> (section 3).\<close>

definition demote :: "ServerDescription \<Rightarrow> ServerDescription" where
  "demote sd = sd\<lparr>role := Unknown\<rparr>"

text \<open>
  Modelled from the spec: replacing the per-server entry (section 4.2). The entry of a
  known address is replaced where it stands; a new address is added.
\<close>

fun put :: "string \<Rightarrow> ServerDescription \<Rightarrow> (string \<times> ServerDescription) list
    \<Rightarrow> (string \<times> ServerDescription) list" where
  "put a sd [] = [(a, sd)]"
| "put a sd ((b, d) # rest) = (if b = a then (a, sd) # rest else (b, d) # put a sd rest)"

text \<open>
  Modelled from the spec: the aggregate topology type, by the rules of section 4.2 on
  the observed roles, in the order the spec lists them: a Standalone alone gives
  \<open>Single\<close>; a Mongos present and no RSPrimary or RSSecondary gives \<open>Sharded\<close>; any
  RSPrimary gives \<open>ReplicaSetWithPrimary\<close>; only secondaries or arbiters, and no primary,
  gives \<open>ReplicaSetNoPrimary\<close>; nothing conclusive gives \<open>UnknownTopology\<close>.
\<close>

definition recompute_type :: "ServerRole list \<Rightarrow> TopologyType" where
  "recompute_type roles =
     (if length roles = 1 \<and> Standalone \<in> set roles then Single
      else if Mongos \<in> set roles \<and> RSPrimary \<notin> set roles \<and> RSSecondary \<notin> set roles then Sharded
      else if RSPrimary \<in> set roles then ReplicaSetWithPrimary
      else if roles \<noteq> [] \<and> set roles \<subseteq> {RSSecondary, RSArbiter} then ReplicaSetNoPrimary
      else UnknownTopology)"

text \<open>
  Modelled from the spec: the currently recorded primary that an incoming description
  from the address \<open>a\<close> would stand beside: an entry of another address with the role
  \<open>RSPrimary\<close>.
\<close>

definition other_primary ::
  "string \<Rightarrow> (string \<times> ServerDescription) list \<Rightarrow> (string \<times> ServerDescription) option" where
  "other_primary a entries = find (\<lambda>(b, d). role d = RSPrimary \<and> b \<noteq> a) entries"

text \<open>
  Modelled from the spec: whether an incoming description is stale (section 4.2): its
  topology version is not newer than that of the description stored for its address.
\<close>

definition stale :: "ServerDescription \<Rightarrow> TopologyDescription \<Rightarrow> bool" where
  "stale sd td =
     (case map_of (servers td) (address sd) of
        None \<Rightarrow> False
      | Some stored \<Rightarrow> \<not> newer (topologyVersion sd) (topologyVersion stored))"

text \<open>
  Modelled from the spec: the entries after an incoming description that is not stale,
  and the addresses whose monitors are asked to re-check immediately (sections 3 and
  4.2). The description replaces the entry of its address. If it reports \<open>RSPrimary\<close>
  while another address is recorded as primary, two primaries would follow: the one whose
  pair \<open>(setVersion, electionId)\<close> is older is demoted to \<open>Unknown\<close> and its monitor is
  asked to re-check. An incoming description that is not older is kept (the spec rejects
  an incoming one only when it is older), so of two equal pairs the recorded one gives
  way.
\<close>

definition resolve_primary ::
  "ServerDescription \<Rightarrow> (string \<times> ServerDescription) list
     \<Rightarrow> (string \<times> ServerDescription) list \<times> string list" where
  "resolve_primary sd entries =
     (if role sd = RSPrimary then
        (case other_primary (address sd) entries of
           None \<Rightarrow> (put (address sd) sd entries, [])
         | Some (b, d) \<Rightarrow>
             if older_election sd d
             then (put (address sd) (demote sd) entries, [address sd])
             else (put b (demote d) (put (address sd) sd entries), [b]))
      else (put (address sd) sd entries, []))"

text \<open>
  Modelled from the spec: the topology state machine's handling of one incoming
  ServerDescription (section 4.2), whose code is not among the source files: it is discarded
  if it is stale; otherwise the entries are replaced as above and the topology type is
  recomputed. The result is the new snapshot and the re-check requests. (The member list
  a primary reports is not among the attributes of a ServerDescription in section 3;
  growing and shrinking the server set is left out.)
\<close>

definition update_topology ::
  "ServerDescription \<Rightarrow> TopologyDescription \<Rightarrow> TopologyDescription \<times> string list" where
  "update_topology sd td =
     (if stale sd td then (td, [])
      else let (entries, recheck) = resolve_primary sd (servers td)
           in (td\<lparr>servers := entries,
                   topologyType := recompute_type (map (\<lambda>(a, d). role d) entries)\<rparr>,
               recheck))"

text \<open>
  Modelled from the spec: the fold of a sequence of updates into the topology, the
  first update first; every intermediate result is a published snapshot.
\<close>

fun fold_updates :: "ServerDescription list \<Rightarrow> TopologyDescription \<Rightarrow> TopologyDescription" where
  "fold_updates [] td = td"
| "fold_updates (sd # sds) td = fold_updates sds (fst (update_topology sd td))"

text \<open>Modelled from the spec: the addresses that a list of entries classifies as \<open>RSPrimary\<close>.\<close>

definition prims :: "(string \<times> ServerDescription) list \<Rightarrow> string list" where
  "prims es = map fst (filter (\<lambda>(a, d). role d = RSPrimary) es)"

text \<open>Modelled from the spec: the servers a snapshot classifies as \<open>RSPrimary\<close>.\<close>

definition primaries :: "TopologyDescription \<Rightarrow> string list" where
  "primaries td = prims (servers td)"

text \<open>Reading a snapshot: the description stored for an address.\<close>

definition server_of :: "TopologyDescription \<Rightarrow> string \<Rightarrow> ServerDescription option" where
  "server_of td a = map_of (servers td) a"

text \<open>
  A description as a monitor reports it: address, role, set version, election id and
  topology version; the other attributes are fixed.
\<close>

definition report :: "string \<Rightarrow> ServerRole \<Rightarrow> nat \<Rightarrow> nat \<Rightarrow> nat \<times> nat \<Rightarrow> ServerDescription" where
  "report a r sv eid tv =
     \<lparr>address = a, role = r, latency = 1, wireVersionRange = (0, 9), setName = Some ''rs0'',
      setVersion = sv, electionId = eid, lastError = None, topologyVersion = tv\<rparr>"







section \<open>Properties of the find operation\<close>

subsection \<open>Documents\<close>

lemma map_of_assign: "map_of (assign k v d) = (map_of d)(k \<mapsto> v)"
  by (induction d) (auto simp: fun_eq_iff)

lemma field_of_assign: "field_of (assign k v d) k' = (if k' = k then Some v else field_of d k')"
  by (simp add: field_of_def map_of_assign)

lemma field_of_set_if:
  "field_of (set_if c k v d) k' = (if c \<and> k' = k then Some v else field_of d k')"
  by (simp add: set_if_def field_of_assign)

lemma field_of_set_first_boolean:
  "field_of (set_first_boolean k a b d) k' =
     (if k' = k \<and> typeof a = ''boolean'' then Some a
      else if k' = k \<and> typeof b = ''boolean'' then Some b
      else field_of d k')"
  by (simp add: set_first_boolean_def field_of_assign)

text \<open>A later assignment to a key wins, so a spread reads its argument from the back.\<close>

lemma map_of_spread: "map_of (spread a b) = map_of a ++ map_of (rev b)"
  unfolding spread_def
proof (induction b arbitrary: a)
  case Nil
  show ?case by simp
next
  case (Cons x b)
  obtain k v where x: "x = (k, v)" by (cases x)
  show ?case
    by (simp add: x Cons.IH map_of_assign)
      (auto simp: fun_eq_iff map_add_def split: option.splits)
qed

subsection \<open>The constructor\<close>

lemma FindOperation_new_cmd:
  "FindOperation_new base coll rp nsp f oa = Inr this \<Longrightarrow>
     cmd this = [(''find'', JStr nsp), (''query'', filter' this)]"
  by (auto simp: FindOperation_new_def Let_def CommandOperation.extend_def split: if_splits)

lemma FindOperation_new_options:
  "FindOperation_new base coll rp nsp f oa = Inr this \<Longrightarrow> options this = options base"
  by (auto simp: FindOperation_new_def Let_def CommandOperation.extend_def split: if_splits)

lemma field_of_initial_cmd:
  assumes "FindOperation_new base coll rp nsp f oa = Inr this"
  shows "field_of (spread [] (cmd this)) k =
     (if k = ''query'' then Some (filter' this) else if k = ''find'' then Some (JStr nsp) else None)"
  by (simp add: FindOperation_new_cmd [OF assms] field_of_def map_of_spread)

text \<open>An object passes the filter check whatever it holds.\<close>

lemma FindOperation_new_object:
  "\<exists>this. FindOperation_new base coll rp nsp (JObj ps) oa = Inr this \<and>
      filter' this = (if getprop ps ''_bsontype'' = JStr ''ObjectID''
                      then JObj [(''_id'', JObj ps)] else JObj ps)"
  by (simp add: FindOperation_new_def Let_def nullish_def CommandOperation.extend_def)

subsection \<open>The command that is sent\<close>

lemma findCommand_final_server:
  "findCommand_final u (this\<lparr>server := x\<rparr>) = findCommand_final u this"
  by (simp add: findCommand_final_def findCommand_before_collation_def)

lemma execute_query:
  assumes "execute u this srv = (this', ServerQuery n c qo)"
  shows "c = findCommand_final u this"
proof -
  have "c = findCommand_final u (this\<lparr>server := Some srv\<rparr>)"
    using assms by (auto simp: execute_def Let_def split: if_splits)
  then show ?thesis by (simp only: findCommand_final_server)
qed

text \<open>When neither check fires, the command is handed to \<^verbatim>\<open>server.query\<close>.\<close>

lemma execute_sends:
  assumes "typeof (getprop (options this) ''allowDiskUse'') = ''undefined'' \<or> 4 \<le> maxWireVersion srv"
    and "\<not> truthy (getprop (options this) ''collation'') \<or> 5 \<le> maxWireVersion srv"
  shows "execute u this srv =
     (this\<lparr>server := Some srv\<rparr>,
      ServerQuery (ns this) (findCommand_final u this)
        (spread (spread [(''fullResult'', JBool (truthy (fullResponse this)))] (options this))
           (bsonOptions this)))"
  using assms
  by (auto simp: execute_def Let_def SUPPORTS_WRITE_CONCERN_AND_COLLATION_def findCommand_final_server)


subsection \<open>Claims about the find operation\<close>

text \<open>
  C6. The two spellings \<^verbatim>\<open>awaitData\<close> and \<^verbatim>\<open>awaitdata\<close> are translated by a table
  over the options alone: in every find command that a constructed operation sends, the
  field \<^verbatim>\<open>awaitData\<close> is \<^verbatim>\<open>options.awaitData\<close> when that is a boolean, otherwise the
  deprecated \<^verbatim>\<open>options.awaitdata\<close> when that is a boolean, and otherwise the command has
  no such field. Nothing else (server, filter, session, other options) enters.
\<close>

theorem find_awaitData_translation:
  assumes "FindOperation_new base coll rp nsp f oa = Inr this"
    and "execute u this srv = (this', ServerQuery n c qo)"
  shows "field_of c ''awaitData'' =
     (if typeof (getprop (options this) ''awaitData'') = ''boolean''
        then Some (getprop (options this) ''awaitData'')
      else if typeof (getprop (options this) ''awaitdata'') = ''boolean''
        then Some (getprop (options this) ''awaitdata'')
      else None)"
proof -
  have "field_of (spread [] (cmd this)) ''awaitData'' = None"
    by (simp add: field_of_initial_cmd [OF assms(1)])
  then show ?thesis
    unfolding execute_query [OF assms(2)]
    by (simp add: findCommand_final_def findCommand_before_collation_def Let_def
        field_of_set_if field_of_set_first_boolean)
qed

theorem find_awaitData_translation_witness:
  "case FindOperation_new
          \<lparr>options = [(''awaitdata'', JBool True), (''awaitData'', JBool False)],
           readConcern = JUndefined, session = None, fullResponse = JUndefined\<rparr>
          \<lparr>s = []\<rparr> JNull ''test.coll'' (JObj []) None of
     Inl e \<Rightarrow> False
   | Inr this \<Rightarrow>
       (case snd (execute \<lparr>formattedOrderClause = (\<lambda>v. v), normalizeHintField = (\<lambda>v. v),
                           toPropertyKey = (\<lambda>v. ''k'')\<rparr>
                    this \<lparr>server_name = ''localhost:27017'', maxWireVersion = 9\<rparr>) of
          CallbackError e \<Rightarrow> False
        | ServerQuery n c qo \<Rightarrow> field_of c ''awaitData'' = Some (JBool False))"
proof -
  let ?B = "\<lparr>options = [(''awaitdata'', JBool True), (''awaitData'', JBool False)],
           readConcern = JUndefined, session = None, fullResponse = JUndefined\<rparr>"
  let ?U = "\<lparr>formattedOrderClause = (\<lambda>v. v), normalizeHintField = (\<lambda>v. v),
            toPropertyKey = (\<lambda>v. ''k'')\<rparr>"
  let ?S = "\<lparr>server_name = ''localhost:27017'', maxWireVersion = 9\<rparr>"
  obtain this where t: "FindOperation_new ?B \<lparr>s = []\<rparr> JNull ''test.coll'' (JObj []) None = Inr this"
    using FindOperation_new_object by blast
  have o: "options this = [(''awaitdata'', JBool True), (''awaitData'', JBool False)]"
    using FindOperation_new_options [OF t] by simp
  have e: "execute ?U this ?S =
     (this\<lparr>server := Some ?S\<rparr>, ServerQuery (ns this) (findCommand_final ?U this)
        (spread (spread [(''fullResult'', JBool (truthy (fullResponse this)))] (options this))
           (bsonOptions this)))"
    by (rule execute_sends) (simp_all add: o getprop_def)
  have "field_of (findCommand_final ?U this) ''awaitData'' = Some (JBool False)"
    using find_awaitData_translation [OF t e] by (simp add: o getprop_def)
  then show ?thesis
    by (simp add: t e)
qed

text \<open>
  C9. \<^verbatim>\<open>execute\<close> fails fast on a feature the server does not support: when
  \<^verbatim>\<open>options.allowDiskUse\<close> is defined and the server's maximal wire version is below 4, or
  \<^verbatim>\<open>options.collation\<close> is set (truthy, as \<^verbatim>\<open>if (options.collation)\<close> tests it) and
  the wire version is below 5, the callback is called with a \<^verbatim>\<open>MongoError\<close> and
  \<^verbatim>\<open>server.query\<close> is not called.
\<close>

theorem execute_fails_fast:
  assumes "(typeof (getprop (options this) ''allowDiskUse'') \<noteq> ''undefined'' \<and> maxWireVersion srv < 4)
         \<or> (truthy (getprop (options this) ''collation'') \<and> maxWireVersion srv < 5)"
  shows "(\<exists>msg. snd (execute u this srv) = CallbackError (MongoError msg))
       \<and> (\<forall>n c qo. snd (execute u this srv) \<noteq> ServerQuery n c qo)"
  using assms
  by (auto simp: execute_def Let_def SUPPORTS_WRITE_CONCERN_AND_COLLATION_def)

theorem execute_fails_fast_witness:
  "(\<exists>msg. snd (execute \<lparr>formattedOrderClause = (\<lambda>v. v), normalizeHintField = (\<lambda>v. v),
                         toPropertyKey = (\<lambda>v. ''k'')\<rparr>
        \<lparr>options = [(''allowDiskUse'', JBool False)], readConcern = JUndefined, session = None,
         fullResponse = JUndefined, ns = ''test.coll'', readPreference = JNull,
         filter' = JObj [], cmd = [(''find'', JStr ''test.coll''), (''query'', JObj [])],
         bsonOptions = [], server = None\<rparr>
        \<lparr>server_name = ''old:27017'', maxWireVersion = 3\<rparr>) = CallbackError (MongoError msg))
   \<and> (\<exists>msg. snd (execute \<lparr>formattedOrderClause = (\<lambda>v. v), normalizeHintField = (\<lambda>v. v),
                         toPropertyKey = (\<lambda>v. ''k'')\<rparr>
        \<lparr>options = [(''collation'', JObj [(''locale'', JStr ''en'')])], readConcern = JUndefined,
         session = None, fullResponse = JUndefined, ns = ''test.coll'', readPreference = JNull,
         filter' = JObj [], cmd = [(''find'', JStr ''test.coll''), (''query'', JObj [])],
         bsonOptions = [], server = None\<rparr>
        \<lparr>server_name = ''old:27017'', maxWireVersion = 4\<rparr>) = CallbackError (MongoError msg))"
proof -
  let ?U = "\<lparr>formattedOrderClause = (\<lambda>v. v), normalizeHintField = (\<lambda>v. v),
            toPropertyKey = (\<lambda>v. ''k'')\<rparr>"
  let ?A = "\<lparr>options = [(''allowDiskUse'', JBool False)], readConcern = JUndefined, session = None,
         fullResponse = JUndefined, ns = ''test.coll'', readPreference = JNull,
         filter' = JObj [], cmd = [(''find'', JStr ''test.coll''), (''query'', JObj [])],
         bsonOptions = [], server = None\<rparr>"
  let ?C = "\<lparr>options = [(''collation'', JObj [(''locale'', JStr ''en'')])], readConcern = JUndefined,
         session = None, fullResponse = JUndefined, ns = ''test.coll'', readPreference = JNull,
         filter' = JObj [], cmd = [(''find'', JStr ''test.coll''), (''query'', JObj [])],
         bsonOptions = [], server = None\<rparr>"
  have a: "(typeof (getprop (options ?A) ''allowDiskUse'') \<noteq> ''undefined''
              \<and> maxWireVersion \<lparr>server_name = ''old:27017'', maxWireVersion = 3\<rparr> < 4)
         \<or> (truthy (getprop (options ?A) ''collation'')
              \<and> maxWireVersion \<lparr>server_name = ''old:27017'', maxWireVersion = 3\<rparr> < 5)"
    by (simp add: getprop_def)
  have c: "(typeof (getprop (options ?C) ''allowDiskUse'') \<noteq> ''undefined''
              \<and> maxWireVersion \<lparr>server_name = ''old:27017'', maxWireVersion = 4\<rparr> < 4)
         \<or> (truthy (getprop (options ?C) ''collation'')
              \<and> maxWireVersion \<lparr>server_name = ''old:27017'', maxWireVersion = 4\<rparr> < 5)"
    by (simp add: getprop_def)
  show ?thesis
    using execute_fails_fast [OF a, of ?U] execute_fails_fast [OF c, of ?U] by blast
qed

text \<open>
  C10. For the cursor timeout the deprecated option wins: in every find command that a
  constructed operation sends, the field \<^verbatim>\<open>noCursorTimeout\<close> is \<^verbatim>\<open>options.timeout\<close>
  when that is a boolean, otherwise \<^verbatim>\<open>options.noCursorTimeout\<close> when that is a boolean,
  and otherwise absent. For \<^verbatim>\<open>allowPartialResults\<close>/\<^verbatim>\<open>partial\<close> (and
  \<^verbatim>\<open>awaitData\<close>/\<^verbatim>\<open>awaitdata\<close>) the order is the reverse: the option that is not
  deprecated is read first.
\<close>

theorem find_noCursorTimeout_precedence:
  assumes "FindOperation_new base coll rp nsp f oa = Inr this"
    and "execute u this srv = (this', ServerQuery n c qo)"
  shows "field_of c ''noCursorTimeout'' =
     (if typeof (getprop (options this) ''timeout'') = ''boolean''
        then Some (getprop (options this) ''timeout'')
      else if typeof (getprop (options this) ''noCursorTimeout'') = ''boolean''
        then Some (getprop (options this) ''noCursorTimeout'')
      else None)
   \<and> field_of c ''allowPartialResults'' =
     (if typeof (getprop (options this) ''allowPartialResults'') = ''boolean''
        then Some (getprop (options this) ''allowPartialResults'')
      else if typeof (getprop (options this) ''partial'') = ''boolean''
        then Some (getprop (options this) ''partial'')
      else None)
   \<and> field_of c ''awaitData'' =
     (if typeof (getprop (options this) ''awaitData'') = ''boolean''
        then Some (getprop (options this) ''awaitData'')
      else if typeof (getprop (options this) ''awaitdata'') = ''boolean''
        then Some (getprop (options this) ''awaitdata'')
      else None)"
proof -
  have "field_of (spread [] (cmd this)) k =
     (if k = ''query'' then Some (filter' this) else if k = ''find'' then Some (JStr nsp) else None)"
    for k
    by (rule field_of_initial_cmd [OF assms(1)])
  then show ?thesis
    unfolding execute_query [OF assms(2)]
    by (simp add: findCommand_final_def findCommand_before_collation_def Let_def
        field_of_set_if field_of_set_first_boolean)
qed

theorem find_noCursorTimeout_precedence_witness:
  "case FindOperation_new
          \<lparr>options = [(''noCursorTimeout'', JBool True), (''timeout'', JBool False),
                      (''allowPartialResults'', JBool True), (''partial'', JBool False)],
           readConcern = JUndefined, session = None, fullResponse = JUndefined\<rparr>
          \<lparr>s = []\<rparr> JNull ''test.coll'' (JObj []) None of
     Inl e \<Rightarrow> False
   | Inr this \<Rightarrow>
       (case snd (execute \<lparr>formattedOrderClause = (\<lambda>v. v), normalizeHintField = (\<lambda>v. v),
                           toPropertyKey = (\<lambda>v. ''k'')\<rparr>
                    this \<lparr>server_name = ''localhost:27017'', maxWireVersion = 9\<rparr>) of
          CallbackError e \<Rightarrow> False
        | ServerQuery n c qo \<Rightarrow>
            field_of c ''noCursorTimeout'' = Some (JBool False)
            \<and> field_of c ''allowPartialResults'' = Some (JBool True)
            \<and> field_of c ''awaitData'' = None)"
proof -
  let ?O = "[(''noCursorTimeout'', JBool True), (''timeout'', JBool False),
            (''allowPartialResults'', JBool True), (''partial'', JBool False)]"
  let ?B = "\<lparr>options = ?O, readConcern = JUndefined, session = None, fullResponse = JUndefined\<rparr>"
  let ?U = "\<lparr>formattedOrderClause = (\<lambda>v. v), normalizeHintField = (\<lambda>v. v),
            toPropertyKey = (\<lambda>v. ''k'')\<rparr>"
  let ?S = "\<lparr>server_name = ''localhost:27017'', maxWireVersion = 9\<rparr>"
  obtain this where t: "FindOperation_new ?B \<lparr>s = []\<rparr> JNull ''test.coll'' (JObj []) None = Inr this"
    using FindOperation_new_object by blast
  have o: "options this = ?O"
    using FindOperation_new_options [OF t] by simp
  have e: "execute ?U this ?S =
     (this\<lparr>server := Some ?S\<rparr>, ServerQuery (ns this) (findCommand_final ?U this)
        (spread (spread [(''fullResult'', JBool (truthy (fullResponse this)))] (options this))
           (bsonOptions this)))"
    by (rule execute_sends) (simp_all add: o getprop_def)
  have "field_of (findCommand_final ?U this) ''noCursorTimeout'' = Some (JBool False)
      \<and> field_of (findCommand_final ?U this) ''allowPartialResults'' = Some (JBool True)
      \<and> field_of (findCommand_final ?U this) ''awaitData'' = None"
    using find_noCursorTimeout_precedence [OF t e] by (simp add: o getprop_def)
  then show ?thesis
    by (simp add: t e)
qed


text \<open>
  C8, as the code has it. The constructor rejects a filter that is an array or is not of
  object type with the \<^verbatim>\<open>MongoError\<close> \<^verbatim>\<open>Query filter must be a plain object or ObjectId\<close>,
  and constructs nothing, for every filter argument except \<^verbatim>\<open>undefined\<close>; an
  \<^verbatim>\<open>undefined\<close> filter takes the parameter's default \<^verbatim>\<open>{}\<close> and the operation is
  constructed with the empty filter. For a filter whose \<^verbatim>\<open>_bsontype\<close> is
  \<^verbatim>\<open>'ObjectID'\<close> the operation is constructed and stores the wrapper
  \<^verbatim>\<open>{ _id: filter }\<close>.
\<close>

theorem FindOperation_new_filter_check:
  "(f \<noteq> JUndefined \<and> (isArray f \<or> typeof f \<noteq> ''object'') \<longrightarrow>
      FindOperation_new base coll rp nsp f oa
        = Inl (MongoError ''Query filter must be a plain object or ObjectId''))
   \<and> (js_member f ''_bsontype'' = JStr ''ObjectID'' \<longrightarrow>
        (\<exists>this. FindOperation_new base coll rp nsp f oa = Inr this
                \<and> filter' this = JObj [(''_id'', f)]))
   \<and> (\<exists>this. FindOperation_new base coll rp nsp JUndefined oa = Inr this
             \<and> filter' this = JObj [])"
proof (intro conjI impI)
  assume "f \<noteq> JUndefined \<and> (isArray f \<or> typeof f \<noteq> ''object'')"
  then show "FindOperation_new base coll rp nsp f oa
        = Inl (MongoError ''Query filter must be a plain object or ObjectId'')"
    by (auto simp: FindOperation_new_def)
next
  assume b: "js_member f ''_bsontype'' = JStr ''ObjectID''"
  then obtain ps where f: "f = JObj ps"
    by (cases f) simp_all
  from b show "\<exists>this. FindOperation_new base coll rp nsp f oa = Inr this
                \<and> filter' this = JObj [(''_id'', f)]"
    using FindOperation_new_object [of base coll rp nsp ps oa] by (simp add: f)
next
  show "\<exists>this. FindOperation_new base coll rp nsp JUndefined oa = Inr this
             \<and> filter' this = JObj []"
    by (simp add: FindOperation_new_def Let_def nullish_def getprop_def
        CommandOperation.extend_def)
qed

theorem FindOperation_new_filter_check_witness:
  "FindOperation_new \<lparr>options = [], readConcern = JUndefined, session = None,
                      fullResponse = JUndefined\<rparr> \<lparr>s = []\<rparr> JNull ''test.coll''
       (JArr [JStr ''a'']) None
     = Inl (MongoError ''Query filter must be a plain object or ObjectId'')
   \<and> FindOperation_new \<lparr>options = [], readConcern = JUndefined, session = None,
                      fullResponse = JUndefined\<rparr> \<lparr>s = []\<rparr> JNull ''test.coll''
       (JStr ''a'') None
     = Inl (MongoError ''Query filter must be a plain object or ObjectId'')
   \<and> (\<exists>this. FindOperation_new \<lparr>options = [], readConcern = JUndefined, session = None,
                      fullResponse = JUndefined\<rparr> \<lparr>s = []\<rparr> JNull ''test.coll''
          (JObj [(''_bsontype'', JStr ''ObjectID''), (''id'', JStr ''5f0c'')]) None = Inr this
        \<and> filter' this
            = JObj [(''_id'', JObj [(''_bsontype'', JStr ''ObjectID''), (''id'', JStr ''5f0c'')])])"
proof -
  let ?B = "\<lparr>options = [], readConcern = JUndefined, session = None, fullResponse = JUndefined\<rparr>"
  let ?oid = "JObj [(''_bsontype'', JStr ''ObjectID''), (''id'', JStr ''5f0c'')]"
  have 1: "JArr [JStr ''a''] \<noteq> JUndefined
      \<and> (isArray (JArr [JStr ''a'']) \<or> typeof (JArr [JStr ''a'']) \<noteq> ''object'')"
    by simp
  have 2: "JStr ''a'' \<noteq> JUndefined \<and> (isArray (JStr ''a'') \<or> typeof (JStr ''a'') \<noteq> ''object'')"
    by simp
  have 3: "js_member ?oid ''_bsontype'' = JStr ''ObjectID''"
    by (simp add: getprop_def)
  show ?thesis
    using FindOperation_new_filter_check [of "JArr [JStr ''a'']" "?B" "\<lparr>s = []\<rparr>" JNull "''test.coll''" None] 1
      FindOperation_new_filter_check [of "JStr ''a''" "?B" "\<lparr>s = []\<rparr>" JNull "''test.coll''" None] 2
      FindOperation_new_filter_check [of "?oid" "?B" "\<lparr>s = []\<rparr>" JNull "''test.coll''" None] 3
    by blast
qed

text \<open>
  The claim as stated fails at the filter \<^verbatim>\<open>undefined\<close>: it is not of object type, and
  the constructor does not throw.
\<close>

theorem FindOperation_new_undefined_filter_counterexample:
  "typeof JUndefined \<noteq> ''object''
   \<and> FindOperation_new \<lparr>options = [], readConcern = JUndefined, session = None,
                        fullResponse = JUndefined\<rparr> \<lparr>s = []\<rparr> JNull ''test.coll''
        JUndefined None
     = Inr \<lparr>options = [], readConcern = JUndefined, session = None, fullResponse = JUndefined,
            ns = ''test.coll'', readPreference = JNull, filter' = JObj [],
            cmd = [(''find'', JStr ''test.coll''), (''query'', JObj [])],
            bsonOptions = [(''raw'', JBool False), (''promoteLongs'', JBool True),
                           (''promoteValues'', JBool True), (''promoteBuffers'', JBool False),
                           (''ignoreUndefined'', JBool False)],
            server = None\<rparr>"
  by (simp add: FindOperation_new_def Let_def nullish_def getprop_def coalesce_def
      CommandOperation.extend_def)


section \<open>Properties of the authentication provider registry\<close>

lemma load_module_eq:
  "load_module h0 =
     \<lparr>heap = h0 @ [Instance MongoDBAWS, Instance MongoCR, Instance GSSAPI, Instance Plain,
                     Instance ScramSHA1, Instance ScramSHA256, Instance X509,
                     ObjectLiteral
                       [(''MONGODB-AWS'', length h0), (''MONGODB-CR'', length h0 + 1),
                        (''GSSAPI'', length h0 + 2), (''PLAIN'', length h0 + 3),
                        (''SCRAM-SHA-1'', length h0 + 4), (''SCRAM-SHA-256'', length h0 + 5),
                        (''MONGODB-X509'', length h0 + 6)]],
      AUTH_PROVIDERS = length h0 + 7\<rparr>"
  by (simp add: load_module_def alloc_def)







text \<open>
  C4. With the mechanism \<^verbatim>\<open>DEFAULT\<close> the capability exchange selects
  \<^verbatim>\<open>SCRAM-SHA-256\<close> if the server offers it, otherwise \<^verbatim>\<open>SCRAM-SHA-1\<close> if the server
  offers it, and otherwise fails with the unsupported-mechanism error. The registry of the
  source has an entry for each of the two SCRAM mechanisms, under different keys and
  holding different instances (\<^verbatim>\<open>ScramSHA256\<close>, \<^verbatim>\<open>ScramSHA1\<close>), so the selected mechanism
  always resolves to its provider; \<^verbatim>\<open>DEFAULT\<close> itself has no entry.
\<close>

theorem default_mechanism_negotiation:
  "select_mechanism MONGODB_DEFAULT offered =
     (if ''SCRAM-SHA-256'' \<in> set offered then Inr MONGODB_SCRAM_SHA256
      else if ''SCRAM-SHA-1'' \<in> set offered then Inr MONGODB_SCRAM_SHA1
      else Inl UnsupportedMechanism)
   \<and> resolve_provider (load_module h0) MONGODB_DEFAULT offered =
     (if ''SCRAM-SHA-256'' \<in> set offered then Inr (Some (length h0 + 5, ScramSHA256))
      else if ''SCRAM-SHA-1'' \<in> set offered then Inr (Some (length h0 + 4, ScramSHA1))
      else Inl UnsupportedMechanism)
   \<and> provider_lookup (load_module h0) (mechanism_value MONGODB_SCRAM_SHA256)
       = Some (length h0 + 5, ScramSHA256)
   \<and> provider_lookup (load_module h0) (mechanism_value MONGODB_SCRAM_SHA1)
       = Some (length h0 + 4, ScramSHA1)
   \<and> mechanism_value MONGODB_SCRAM_SHA256 \<noteq> mechanism_value MONGODB_SCRAM_SHA1
   \<and> provider_lookup (load_module h0) (mechanism_value MONGODB_DEFAULT) = None"
  by (simp add: select_mechanism_def resolve_provider_def provider_lookup_def
      defaultAuthProviders_def load_module_eq properties_def instance_at_def nth_append)


section \<open>Properties of latency narrowing\<close>

text \<open>
  C5, as the specified narrowing has it. For a non-empty list of eligible servers the
  narrowing returns exactly the servers whose latency lies in the closed interval
  \<open>[min, min + window]\<close>, \<open>min\<close> being the least eligible latency, in their order. For the
  latencies 5, 6, 18, 20 and the window 15 these are all four servers, the one at
  \<open>20 = min + window\<close> included; with 21 in place of 20 they are the servers at 5, 6, 18.
\<close>

theorem latency_narrowing_closed_window:
  "(eligible \<noteq> [] \<longrightarrow>
      latency_narrowing window eligible =
        filter (\<lambda>sd. Min (latency ` set eligible) \<le> latency sd
                    \<and> latency sd \<le> Min (latency ` set eligible) + window) eligible)
   \<and> map latency (latency_narrowing DEFAULT_LATENCY_WINDOW
         [server_at ''a'' 5, server_at ''b'' 6, server_at ''c'' 18, server_at ''d'' 20])
       = [5, 6, 18, 20]
   \<and> map latency (latency_narrowing DEFAULT_LATENCY_WINDOW
         [server_at ''a'' 5, server_at ''b'' 6, server_at ''c'' 18, server_at ''d'' 21])
       = [5, 6, 18]"
proof (intro conjI impI)
  assume ne: "eligible \<noteq> []"
  have "Min (latency ` set eligible) \<le> latency sd" if "sd \<in> set eligible" for sd
    using that by simp
  then have "filter (\<lambda>sd. latency sd \<le> Min (latency ` set eligible) + window) eligible
      = filter (\<lambda>sd. Min (latency ` set eligible) \<le> latency sd
                    \<and> latency sd \<le> Min (latency ` set eligible) + window) eligible"
    by (intro filter_cong) auto
  with ne show "latency_narrowing window eligible =
        filter (\<lambda>sd. Min (latency ` set eligible) \<le> latency sd
                    \<and> latency sd \<le> Min (latency ` set eligible) + window) eligible"
    by (simp add: latency_narrowing_def)
next
  show "map latency (latency_narrowing DEFAULT_LATENCY_WINDOW
         [server_at ''a'' 5, server_at ''b'' 6, server_at ''c'' 18, server_at ''d'' 20])
       = [5, 6, 18, 20]"
    by (simp add: latency_narrowing_def DEFAULT_LATENCY_WINDOW_def server_at_def)
next
  show "map latency (latency_narrowing DEFAULT_LATENCY_WINDOW
         [server_at ''a'' 5, server_at ''b'' 6, server_at ''c'' 18, server_at ''d'' 21])
       = [5, 6, 18]"
    by (simp add: latency_narrowing_def DEFAULT_LATENCY_WINDOW_def server_at_def)
qed

theorem latency_narrowing_closed_window_witness:
  "[server_at ''a'' 5, server_at ''d'' 21] \<noteq> []
   \<and> latency_narrowing 15 [server_at ''a'' 5, server_at ''d'' 21] = [server_at ''a'' 5]"
proof -
  have ne: "[server_at ''a'' 5, server_at ''d'' 21] \<noteq> []" by simp
  have "latency_narrowing 15 [server_at ''a'' 5, server_at ''d'' 21] =
        filter (\<lambda>sd. Min (latency ` set [server_at ''a'' 5, server_at ''d'' 21]) \<le> latency sd
                    \<and> latency sd \<le> Min (latency ` set [server_at ''a'' 5, server_at ''d'' 21]) + 15)
          [server_at ''a'' 5, server_at ''d'' 21]"
    using latency_narrowing_closed_window [of "[server_at ''a'' 5, server_at ''d'' 21]" 15] ne
    by blast
  then show ?thesis
    by (simp add: server_at_def)
qed

text \<open>
  The example of the claim fails: with the latencies 5, 6, 18, 20 and the window 15 the
  server at 20ms is returned, since \<open>20 \<le> 5 + 15\<close>.
\<close>

theorem latency_narrowing_example_counterexample:
  "map latency (latency_narrowing 15
      [server_at ''a'' 5, server_at ''b'' 6, server_at ''c'' 18, server_at ''d'' 20])
     \<noteq> [5, 6, 18]"
  by (simp add: latency_narrowing_def server_at_def)


section \<open>Properties of the connection pool\<close>



















section \<open>Properties of the topology state machine\<close>

subsection \<open>Entries\<close>

lemma map_of_put: "map_of (put a sd es) = (map_of es)(a \<mapsto> sd)"
  by (induction es) (auto simp: fun_eq_iff)

lemma map_fst_put: "map fst (put a sd es) = (if a \<in> fst ` set es then map fst es else map fst es @ [a])"
  by (induction es) (auto split: if_splits)

lemma distinct_put: "distinct (map fst es) \<Longrightarrow> distinct (map fst (put a sd es))"
  by (simp add: map_fst_put)

text \<open>The primaries among the entries, before and after an entry is replaced.\<close>

lemma set_prims: "set (prims es) = {a. \<exists>d. (a, d) \<in> set es \<and> role d = RSPrimary}"
  by (force simp: prims_def)

lemma distinct_prims: "distinct (map fst es) \<Longrightarrow> distinct (prims es)"
  unfolding prims_def by (simp add: distinct_map_filter)

lemma in_set_put:
  assumes "distinct (map fst es)"
  shows "(b, d) \<in> set (put a sd es) \<longleftrightarrow> (if b = a then d = sd else (b, d) \<in> set es)"
proof -
  have "(b, d) \<in> set (put a sd es) \<longleftrightarrow> map_of (put a sd es) b = Some d"
    using distinct_put [OF assms] by simp
  also have "\<dots> \<longleftrightarrow> (if b = a then d = sd else map_of es b = Some d)"
    by (auto simp: map_of_put)
  finally show ?thesis
    using assms by simp
qed

lemma set_prims_put:
  assumes "distinct (map fst es)"
  shows "set (prims (put a sd es)) =
     (if role sd = RSPrimary then insert a (set (prims es)) else set (prims es) - {a})"
  using assms by (auto simp: set_prims in_set_put)

lemma other_primary_Some:
  "other_primary a es = Some (b, d) \<Longrightarrow> (b, d) \<in> set es \<and> role d = RSPrimary \<and> b \<noteq> a"
  unfolding other_primary_def by (induction es) (auto split: if_splits)

lemma other_primary_None:
  "other_primary a es = None \<Longrightarrow> set (prims es) \<subseteq> {a}"
  unfolding other_primary_def by (induction es) (auto simp: set_prims split: if_splits)


subsection \<open>At most one primary\<close>

lemma prims_le_1_iff:
  assumes "distinct (map fst es)"
  shows "length (prims es) \<le> 1 \<longleftrightarrow> (\<forall>x \<in> set (prims es). \<forall>y \<in> set (prims es). x = y)"
proof -
  have d: "distinct (prims es)"
    by (rule distinct_prims [OF assms])
  show ?thesis
  proof (cases "prims es")
    case Nil
    then show ?thesis by simp
  next
    case (Cons x xs)
    with d show ?thesis by (cases xs) auto
  qed
qed

lemma resolve_primary_distinct:
  "distinct (map fst es) \<Longrightarrow> distinct (map fst (fst (resolve_primary sd es)))"
  by (auto simp: resolve_primary_def distinct_put split: option.splits)

lemma resolve_primary_prims:
  assumes "distinct (map fst es)"
  shows "set (prims (fst (resolve_primary sd es))) =
     (if role sd = RSPrimary then
        (case other_primary (address sd) es of
           None \<Rightarrow> insert (address sd) (set (prims es))
         | Some (b, d) \<Rightarrow>
             if older_election sd d then set (prims es) - {address sd}
             else insert (address sd) (set (prims es)) - {b})
      else set (prims es) - {address sd})"
proof -
  have 1: "set (prims (put (address sd) sd es)) =
      (if role sd = RSPrimary then insert (address sd) (set (prims es))
       else set (prims es) - {address sd})"
    by (rule set_prims_put [OF assms])
  have 2: "set (prims (put (address sd) (demote sd) es)) = set (prims es) - {address sd}"
    by (simp add: set_prims_put [OF assms] demote_def)
  have 3: "set (prims (put b (demote d) (put (address sd) sd es))) =
      set (prims (put (address sd) sd es)) - {b}" for b d
    by (simp add: set_prims_put [OF distinct_put [OF assms]] demote_def)
  show ?thesis
    by (simp add: resolve_primary_def 1 2 3 split: option.splits)
qed

lemma resolve_primary_one:
  assumes "distinct (map fst es)" and "length (prims es) \<le> 1"
  shows "length (prims (fst (resolve_primary sd es))) \<le> 1"
proof -
  have one: "x = y" if "x \<in> set (prims es)" "y \<in> set (prims es)" for x y
    using assms(2) [unfolded prims_le_1_iff [OF assms(1)]] that by blast
  have "x = y" if x: "x \<in> set (prims (fst (resolve_primary sd es)))"
      and y: "y \<in> set (prims (fst (resolve_primary sd es)))" for x y
  proof (cases "other_primary (address sd) es")
    case None
    have "set (prims es) \<subseteq> {address sd}"
      by (rule other_primary_None [OF None])
    then have "set (prims (fst (resolve_primary sd es))) \<subseteq> {address sd}"
      unfolding resolve_primary_prims [OF assms(1)] None by auto
    with x y show ?thesis by blast
  next
    case (Some bd)
    obtain b d where bd: "bd = (b, d)" by (cases bd)
    have "b \<in> set (prims es)"
      using other_primary_Some [OF Some [unfolded bd]] by (auto simp: set_prims)
    then have "set (prims es) \<subseteq> {b}"
      using one by blast
    then have "set (prims (fst (resolve_primary sd es))) \<subseteq> {b}
        \<or> set (prims (fst (resolve_primary sd es))) \<subseteq> {address sd}"
      unfolding resolve_primary_prims [OF assms(1)] Some bd by auto
    with x y show ?thesis by blast
  qed
  then show ?thesis
    unfolding prims_le_1_iff [OF resolve_primary_distinct [OF assms(1)]] by blast
qed

lemma update_topology_servers:
  "servers (fst (update_topology sd td)) =
     (if stale sd td then servers td else fst (resolve_primary sd (servers td)))"
  by (simp add: update_topology_def split: prod.splits)

lemma update_topology_inv:
  assumes "distinct (map fst (servers td))" and "length (primaries td) \<le> 1"
  shows "distinct (map fst (servers (fst (update_topology sd td))))"
    and "length (primaries (fst (update_topology sd td))) \<le> 1"
proof -
  show "distinct (map fst (servers (fst (update_topology sd td))))"
    using assms(1) by (simp add: update_topology_servers resolve_primary_distinct)
  have "length (prims (fst (resolve_primary sd (servers td)))) \<le> 1"
    using assms unfolding primaries_def by (rule resolve_primary_one)
  with assms(2) show "length (primaries (fst (update_topology sd td))) \<le> 1"
    unfolding primaries_def update_topology_servers by (cases "stale sd td") simp_all
qed

lemma fold_updates_inv:
  assumes "distinct (map fst (servers td))" and "length (primaries td) \<le> 1"
  shows "distinct (map fst (servers (fold_updates sds td)))
       \<and> length (primaries (fold_updates sds td)) \<le> 1"
  using assms
proof (induction sds arbitrary: td)
  case Nil
  then show ?case by simp
next
  case (Cons sd sds)
  show ?case
    unfolding fold_updates.simps
    by (rule Cons.IH) (rule update_topology_inv [OF Cons.prems])+
qed

lemma resolve_primary_older:
  assumes "role sd = RSPrimary" "other_primary (address sd) es = Some (b, d)"
    "older_election sd d"
  shows "resolve_primary sd es = (put (address sd) (demote sd) es, [address sd])"
  using assms by (simp add: resolve_primary_def)

lemma resolve_primary_not_older:
  assumes "role sd = RSPrimary" "other_primary (address sd) es = Some (b, d)"
    "\<not> older_election sd d"
  shows "resolve_primary sd es = (put b (demote d) (put (address sd) sd es), [b])"
  using assms by (simp add: resolve_primary_def)

lemma older_election_asym: "older_election a b \<Longrightarrow> \<not> older_election b a"
  by (auto simp: older_election_def)

lemma update_topology_fresh:
  "\<not> stale sd td \<Longrightarrow>
     servers (fst (update_topology sd td)) = fst (resolve_primary sd (servers td))
     \<and> snd (update_topology sd td) = snd (resolve_primary sd (servers td))"
  by (simp add: update_topology_def split: prod.splits)

text \<open>
  C1. At most one server is classified \<open>RSPrimary\<close> in every published snapshot: from a
  snapshot with at most one primary, every sequence of updates leads to a snapshot with
  at most one primary. When an update that is not stale reports \<open>RSPrimary\<close> while
  another server is recorded as primary, the server whose pair
  \<open>(setVersion, electionId)\<close> is older is stored with the role \<open>Unknown\<close>, the other
  one is the primary of the new snapshot, and the monitor of the demoted server, and only
  it, is asked to re-check.
\<close>

theorem at_most_one_primary:
  assumes "distinct (map fst (servers td))" and "length (primaries td) \<le> 1"
  shows "length (primaries (fold_updates sds td)) \<le> 1
     \<and> (\<not> stale sd td \<and> role sd = RSPrimary
          \<and> other_primary (address sd) (servers td) = Some (b, d) \<longrightarrow>
          (older_election sd d \<longrightarrow>
             server_of (fst (update_topology sd td)) (address sd) = Some (demote sd)
           \<and> server_of (fst (update_topology sd td)) b = Some d
           \<and> set (primaries (fst (update_topology sd td))) = {b}
           \<and> snd (update_topology sd td) = [address sd])
        \<and> (older_election d sd \<longrightarrow>
             server_of (fst (update_topology sd td)) b = Some (demote d)
           \<and> server_of (fst (update_topology sd td)) (address sd) = Some sd
           \<and> set (primaries (fst (update_topology sd td))) = {address sd}
           \<and> snd (update_topology sd td) = [b]))"
proof (intro conjI impI)
  show "length (primaries (fold_updates sds td)) \<le> 1"
    using fold_updates_inv [OF assms] by blast
next
  assume h: "\<not> stale sd td \<and> role sd = RSPrimary
      \<and> other_primary (address sd) (servers td) = Some (b, d)"
  then have fresh: "\<not> stale sd td" and prim: "role sd = RSPrimary"
    and other: "other_primary (address sd) (servers td) = Some (b, d)"
    by blast+
  have bd: "(b, d) \<in> set (servers td)" "role d = RSPrimary" "b \<noteq> address sd"
    using other_primary_Some [OF other] by blast+
  then have b: "map_of (servers td) b = Some d"
    using assms(1) by simp
  have "b \<in> set (prims (servers td))"
    using bd by (auto simp: set_prims)
  moreover have "x = y" if "x \<in> set (prims (servers td))" "y \<in> set (prims (servers td))" for x y
    using assms(2) [unfolded primaries_def prims_le_1_iff [OF assms(1)]] that by blast
  ultimately have only: "set (prims (servers td)) = {b}"
    by blast
  have P: "set (primaries (fst (update_topology sd td))) =
      (if older_election sd d then {b} else {address sd})"
    unfolding primaries_def
    using bd(3) by (auto simp: update_topology_fresh [OF fresh]
        resolve_primary_prims [OF assms(1)] prim other only)
  {
    assume o: "older_election sd d"
    have r: "resolve_primary sd (servers td)
        = (put (address sd) (demote sd) (servers td), [address sd])"
      by (rule resolve_primary_older [OF prim other o])
    show "server_of (fst (update_topology sd td)) (address sd) = Some (demote sd)"
      by (simp add: server_of_def update_topology_fresh [OF fresh] r map_of_put)
    show "server_of (fst (update_topology sd td)) b = Some d"
      using bd(3) b by (simp add: server_of_def update_topology_fresh [OF fresh] r map_of_put)
    show "set (primaries (fst (update_topology sd td))) = {b}"
      using P o by simp
    show "snd (update_topology sd td) = [address sd]"
      by (simp add: update_topology_fresh [OF fresh] r)
  }
  {
    assume o: "older_election d sd"
    then have n: "\<not> older_election sd d"
      by (rule older_election_asym)
    have r: "resolve_primary sd (servers td)
        = (put b (demote d) (put (address sd) sd (servers td)), [b])"
      by (rule resolve_primary_not_older [OF prim other n])
    show "server_of (fst (update_topology sd td)) b = Some (demote d)"
      by (simp add: server_of_def update_topology_fresh [OF fresh] r map_of_put)
    show "server_of (fst (update_topology sd td)) (address sd) = Some sd"
      using bd(3) by (simp add: server_of_def update_topology_fresh [OF fresh] r map_of_put)
    show "set (primaries (fst (update_topology sd td))) = {address sd}"
      using P n by simp
    show "snd (update_topology sd td) = [b]"
      by (simp add: update_topology_fresh [OF fresh] r)
  }
qed

theorem at_most_one_primary_witness:
  "primaries (fold_updates [report ''A'' RSPrimary 2 2 (1, 1), report ''B'' RSPrimary 1 1 (1, 1)]
                empty_topology) = [''A'']
   \<and> server_of (fold_updates [report ''A'' RSPrimary 2 2 (1, 1), report ''B'' RSPrimary 1 1 (1, 1)]
                empty_topology) ''B''
       = Some (report ''B'' Unknown 1 1 (1, 1))
   \<and> snd (update_topology (report ''B'' RSPrimary 1 1 (1, 1))
            (fold_updates [report ''A'' RSPrimary 2 2 (1, 1)] empty_topology)) = [''B'']
   \<and> snd (update_topology (report ''B'' RSPrimary 3 1 (1, 1))
            (fold_updates [report ''A'' RSPrimary 2 2 (1, 1)] empty_topology)) = [''A'']"
proof -
  let ?A = "report ''A'' RSPrimary 2 2 (1, 1)"
  let ?B = "report ''B'' RSPrimary 1 1 (1, 1)"
  let ?B' = "report ''B'' RSPrimary 3 1 (1, 1)"
  let ?td = "fold_updates [?A] empty_topology"
  have td: "?td = \<lparr>topologyType = ReplicaSetWithPrimary, servers = [(''A'', ?A)],
                    logicalSessionTimeout = None, compatibility = (0, 0)\<rparr>"
    by (simp add: update_topology_def stale_def resolve_primary_def other_primary_def
        empty_topology_def recompute_type_def report_def)
  have 1: "distinct (map fst (servers ?td))" and 2: "length (primaries ?td) \<le> 1"
    unfolding td by (simp_all add: primaries_def prims_def report_def)
  have 3: "\<not> stale ?B ?td \<and> role ?B = RSPrimary
      \<and> other_primary (address ?B) (servers ?td) = Some (''A'', ?A)"
    unfolding td by (simp add: stale_def other_primary_def report_def)
  have 4: "older_election ?B ?A"
    by (simp add: older_election_def report_def)
  have 5: "\<not> stale ?B' ?td \<and> role ?B' = RSPrimary
      \<and> other_primary (address ?B') (servers ?td) = Some (''A'', ?A)"
    unfolding td by (simp add: stale_def other_primary_def report_def)
  have 6: "older_election ?A ?B'"
    by (simp add: older_election_def report_def)
  have a: "address ?B = ''B''" "address ?B' = ''B''" "demote ?B = report ''B'' Unknown 1 1 (1, 1)"
    by (simp_all add: report_def demote_def)
  have f: "fold_updates [?A, ?B] empty_topology = fst (update_topology ?B ?td)"
    by simp
  have "server_of (fst (update_topology ?B ?td)) (address ?B) = Some (demote ?B)
      \<and> set (primaries (fst (update_topology ?B ?td))) = {''A''}
      \<and> snd (update_topology ?B ?td) = [address ?B]
      \<and> length (primaries (fold_updates [?B] ?td)) \<le> 1"
    using at_most_one_primary [OF 1 2, of "[?B]" ?B "''A''" ?A] 3 4 by blast
  moreover have "snd (update_topology ?B' ?td) = [''A'']"
    using at_most_one_primary [OF 1 2, of "[]" ?B' "''A''" ?A] 5 6 by blast
  moreover have "primaries td' = [''A'']" if "set (primaries td') = {''A''}"
    "length (primaries td') \<le> 1" for td'
    using that by (cases "primaries td'") auto
  ultimately show ?thesis
    unfolding f a by simp
qed


subsection \<open>The version guard\<close>













subsection \<open>Without a conflict of primaries\<close>


















end
